theory Spec2Isabelle
  imports Complex_Main "HOL-Library.Sublist" "HOL-Library.Word"
begin

section \<open>Values of the JavaScript runtime\<close>

text \<open>
  A JavaScript \<open>number\<close> is an IEEE double. The component only compares numbers and
  copies them around, so a number is modelled by its exact value: a finite double is the
  real it denotes, and the three special values are constructors of their own. Both zeros
  are \<open>Num 0\<close>, which is how \<open><\<close> and \<open>>\<close> treat them.
\<close>

datatype jsnum = Num real | PosInf | NegInf | NaN

text \<open>The relational operator \<open>a < b\<close> on numbers: false as soon as one side is NaN.\<close>

fun js_lt :: "jsnum \<Rightarrow> jsnum \<Rightarrow> bool" where
  "js_lt (Num a) (Num b) = (a < b)"
| "js_lt (Num a) PosInf = True"
| "js_lt NegInf (Num b) = True"
| "js_lt NegInf PosInf = True"
| "js_lt _ _ = False"

text \<open>\<open>a > b\<close> is \<open>b < a\<close>.\<close>

definition js_gt :: "jsnum \<Rightarrow> jsnum \<Rightarrow> bool" where
  "js_gt a b = js_lt b a"

text \<open>
  The values of the index signature \<open>{ [key: string]: string | number }\<close>. Strings are
  character lists; a character outside ASCII appears as the bytes of its UTF-8 encoding.
\<close>

datatype jsval = VStr string | VNum jsnum

text \<open>
  \<open>String.prototype.toLowerCase\<close> on the ASCII letters. No character outside ASCII
  lowercases to a string made of ASCII letters only that could complete one of the two
  literals this file compares with (\<open>progress\<close> and \<open>critical\<close>), so the comparisons of
  the component agree with this function on every string.
\<close>

definition lower_char :: "char \<Rightarrow> char" where
  "lower_char c =
     (case map_of (zip ''ABCDEFGHIJKLMNOPQRSTUVWXYZ'' ''abcdefghijklmnopqrstuvwxyz'') c of
        Some l \<Rightarrow> l
      | None \<Rightarrow> c)"

definition toLowerCase :: "string \<Rightarrow> string" where
  "toLowerCase s = map lower_char s"

text \<open>\<open>s.includes(sub)\<close>: \<open>sub\<close> occurs in \<open>s\<close> as a contiguous run of characters.\<close>

fun str_includes :: "string \<Rightarrow> string \<Rightarrow> bool" where
  "str_includes [] sub = (sub = [])"
| "str_includes (c # cs) sub = (prefix sub (c # cs) \<or> str_includes cs sub)"

text \<open>Truthiness of an optional string: \<open>undefined\<close> and the empty string are falsy.\<close>

fun truthy_str :: "string option \<Rightarrow> bool" where
  "truthy_str None = False"
| "truthy_str (Some s) = (s \<noteq> [])"

section \<open>Data model (components/type.ts)\<close>

text \<open>
  \<open>AgentProfile.profile\<close> is declared as an optional dictionary. The replay data comes
  from a JSON payload, where the field can also be \<open>null\<close>; \<open>null\<close> passes the test
  \<open>profile !== undefined\<close> and makes the property read that follows throw a
  \<open>TypeError\<close>, the failure the \<open>try\<close>/\<open>catch\<close> of the icon layer exists for. The
  three cases are kept apart.
\<close>

datatype profile = ProfileUndefined | ProfileNull | ProfileObj "string \<rightharpoonup> jsval"

text \<open>
  \<open>AgentStatus.status\<close>: a dictionary or a plain string. The component only ever
  indexes a status, so a string status is kept as the sequence of its UTF-16 code units,
  which is what the length and the indices of a JavaScript string count.
\<close>

datatype status = StatusObj "string \<rightharpoonup> jsval" | StatusStr "16 word list"

text \<open>
  \<open>interface Agent extends AgentProfile, AgentStatus\<close>. Field names carry the prefix
  \<open>agent_\<close> where the source name is shared with \<open>BridgeOverlay\<close> or with a constant
  of HOL.
\<close>

record Agent =
  agent_id :: jsnum
  agent_name :: string
  agent_profile :: profile
  day :: jsnum
  t :: jsnum
  agent_lng :: jsnum
  agent_lat :: jsnum
  parent_id :: jsnum
  agent_action :: string
  agent_status :: status

record LastUpdate =
  lu_day :: "jsnum option"
  lu_t :: "jsnum option"
  lu_step :: "jsnum option"

record BridgeOverlay =
  bridge_id :: string
  name :: "string option"
  priority :: "string option"
  risk :: "string option"
  status :: "string option"
  work_order_status :: "string option"
  action :: "string option"
  due_date :: "string option"
  days_overdue :: "jsnum option"
  lng :: "jsnum option"
  lat :: "jsnum option"
  last_update :: "LastUpdate option"

record LngLat =
  center_lng :: jsnum
  center_lat :: jsnum

text \<open>
  What the property read \<open>o[key]\<close> can give: a value the data holds, the one-unit
  string at a position of a string, or a property found on the prototype chain (a
  built-in function or object, named here by its key; it is never \<open>undefined\<close> or
  \<open>null\<close>).
\<close>

datatype jsread = Data jsval | CodeUnit "16 word" | Inherited string

text \<open>
  The prototype objects belong to the JavaScript runtime, not to the component: the names
  of the properties of \<open>Object.prototype\<close> and of \<open>String.prototype\<close> are taken as
  parameters.
\<close>

record runtime =
  objectProto :: "string list"
  stringProto :: "string list"

definition inherited_prop :: "string list \<Rightarrow> string \<Rightarrow> jsread option" where
  "inherited_prop names key = (if key \<in> set names then Some (Inherited key) else None)"

text \<open>
  The own properties of a string: \<open>length\<close>, and the canonical array indices below
  the length, each giving the code unit at that position as a one-unit string.
\<close>

definition digit :: "char \<Rightarrow> nat option" where
  "digit c = map_of (zip ''0123456789'' [0, 1, 2, 3, 4, 5, 6, 7, 8, 9]) c"

fun parse_digits :: "string \<Rightarrow> nat \<Rightarrow> nat option" where
  "parse_digits [] acc = Some acc"
| "parse_digits (c # cs) acc =
     (case digit c of None \<Rightarrow> None | Some d \<Rightarrow> parse_digits cs (10 * acc + d))"

definition array_index :: "string \<Rightarrow> nat option" where
  "array_index key =
     (case key of
        [] \<Rightarrow> None
      | c # cs \<Rightarrow> if c = CHR ''0'' \<and> cs \<noteq> [] then None else parse_digits key 0)"

definition str_index :: "16 word list \<Rightarrow> string \<Rightarrow> jsread option" where
  "str_index s key =
     (if key = ''length'' then Some (Data (VNum (Num (real (length s)))))
      else case array_index key of
             None \<Rightarrow> None
           | Some i \<Rightarrow> if i < length s then Some (CodeUnit (s ! i)) else None)"

text \<open>
  \<open>a.status[key]\<close>: the own property when there is one, otherwise the property of that
  name on the prototype chain (\<open>Object.prototype\<close> for a dictionary,
  \<open>String.prototype\<close> and then \<open>Object.prototype\<close> for a string), otherwise
  \<open>undefined\<close>.
\<close>

fun status_get :: "runtime \<Rightarrow> status \<Rightarrow> string \<Rightarrow> jsread option" where
  "status_get rt (StatusObj m) key =
     (case m key of
        Some v \<Rightarrow> Some (Data v)
      | None \<Rightarrow> inherited_prop (objectProto rt) key)"
| "status_get rt (StatusStr s) key =
     (case str_index s key of
        Some v \<Rightarrow> Some v
      | None \<Rightarrow> inherited_prop (stringProto rt @ objectProto rt) key)"

section \<open>Bridge status colour (Deck.tsx, lines 36-52)\<close>

type_synonym rgba = "nat \<times> nat \<times> nat \<times> nat"

definition BRIDGE_COLORS_critical :: rgba where
  "BRIDGE_COLORS_critical = (220, 53, 69, 220)"

definition BRIDGE_COLORS_inProgress :: rgba where
  "BRIDGE_COLORS_inProgress = (255, 165, 0, 220)"

definition BRIDGE_COLORS_default :: rgba where
  "BRIDGE_COLORS_default = (52, 152, 219, 200)"

text \<open>
  \<open>priority?.toLowerCase()\<close> is \<open>undefined\<close> for an undefined priority, so the optional
  chaining is \<open>map_option\<close>. The first test is \<open>normalizedStatus && \<dots>\<close>: the status has
  to be truthy (defined and not empty) before \<open>includes\<close> is asked.
\<close>

definition bridgeStatusColor :: "string option \<Rightarrow> string option \<Rightarrow> rgba" where
  "bridgeStatusColor priority' workOrderStatus =
     (let normalizedPriority = map_option toLowerCase priority';
          normalizedStatus = map_option toLowerCase workOrderStatus
      in if truthy_str normalizedStatus \<and>
            (case normalizedStatus of None \<Rightarrow> False | Some s \<Rightarrow> str_includes s ''progress'')
         then BRIDGE_COLORS_inProgress
         else if normalizedPriority = Some ''critical''
         then BRIDGE_COLORS_critical
         else BRIDGE_COLORS_default)"

section \<open>Layers (Deck.tsx, lines 55-248)\<close>

text \<open>
  The objects a layer carries as \<open>data\<close>, one constructor per object shape the component
  builds, and the GeoJSON feature of the \<open>aoi\<close> layer that the tooltip still handles.
\<close>

record AoiProperties =
  aoi_name :: "string option"
  land_use :: "string option"

datatype datum =
    IconDatum jsnum "jsnum \<times> jsnum" string
  | TextDatum jsnum "jsnum \<times> jsnum" string
  | PointDatum jsnum "jsnum \<times> jsnum" nat "nat \<times> nat \<times> nat"
  | HeatDatum "jsnum \<times> jsnum" jsread
  | BridgeDatum BridgeOverlay
  | AoiFeature "jsval option" "AoiProperties option"

text \<open>
  The fields, in the order of the constructors' arguments: \<open>{id, coordinate, avatarUrl}\<close>,
  \<open>{id, position, text}\<close>, \<open>{id, position, radius, color}\<close>, \<open>{position, weight}\<close>, a
  bridge overlay as it is, and \<open>{id, properties}\<close>.
\<close>

datatype layer_class = IconLayer | TextLayer | ScatterplotLayer | HeatmapLayer | GeoJsonLayer

text \<open>
  A layer: its class, its \<open>id\<close>, its \<open>data\<close>, and whether the source passes
  \<open>pickable: true\<close>. The other properties are literals of the source that no function
  of this file reads; the accessors that compute something are definitions below.
\<close>

record layer =
  layer_class :: layer_class
  layer_id :: string
  layer_data :: "datum list"
  pickable :: bool

datatype js_error = TypeError

text \<open>
  The icon chosen from a profile dictionary (lines 98-116). Both branches of the source
  test \<open>typeof age === 'number'\<close>; the comparisons are on that number.
\<close>

definition avatarOfProfile :: "(string \<rightharpoonup> jsval) \<Rightarrow> string" where
  "avatarOfProfile p =
     (let gender = p ''gender''; age = p ''age'' in
      case age of
        Some (VNum n) \<Rightarrow>
          if gender = Some (VStr ''male'') then
            (if js_lt n (Num 18) then ''/icon/boy1.png''
             else if js_lt n (Num 65) then ''/icon/boy2.png''
             else ''/icon/boy3.png'')
          else if gender = Some (VStr ''female'') then
            (if js_lt n (Num 18) then ''/icon/girl1.png''
             else if js_lt n (Num 65) then ''/icon/girl2.png''
             else ''/icon/girl3.png'')
          else ''/icon/agent.png''
      | _ \<Rightarrow> ''/icon/agent.png'')"

text \<open>
  The body of the \<open>try\<close> block (lines 97-117): the value of \<open>avatarUrl\<close> when the block
  completes, or the exception it throws. \<open>avatarUrl\<close> starts as \<open>/icon/agent.png\<close>
  and is assigned only after both property reads.
\<close>

fun tryAvatar :: "profile \<Rightarrow> js_error + string" where
  "tryAvatar ProfileUndefined = Inr ''/icon/agent.png''"
| "tryAvatar ProfileNull = Inl TypeError"
| "tryAvatar (ProfileObj p) = Inr (avatarOfProfile p)"

text \<open>
  One element of the icon layer's data (lines 93-126), with what the \<open>catch\<close> clause
  writes to \<open>console.error\<close>.
\<close>

definition iconDatum :: "Agent \<Rightarrow> datum \<times> js_error list" where
  "iconDatum a =
     (case tryAvatar (agent_profile a) of
        Inl e \<Rightarrow> (IconDatum (agent_id a) (agent_lng a, agent_lat a) ''/icon/agent.png'', [e])
      | Inr url \<Rightarrow> (IconDatum (agent_id a) (agent_lng a, agent_lat a) url, []))"

definition iconLayer :: "Agent list \<Rightarrow> layer" where
  "iconLayer agentList =
     \<lparr>layer_class = IconLayer, layer_id = ''icon'',
      layer_data = map (\<lambda>a. fst (iconDatum a)) agentList, pickable = True\<rparr>"

text \<open>
  The text layer's data (lines 145-155): \<open>undefined\<close> for an agent with an empty name,
  then the \<open>undefined\<close> entries filtered out.
\<close>

definition textDatum :: "Agent \<Rightarrow> datum option" where
  "textDatum a =
     (if agent_name a = [] then None
      else Some (TextDatum (agent_id a) (agent_lng a, agent_lat a) (agent_name a)))"

definition textLayer :: "Agent list \<Rightarrow> layer" where
  "textLayer agentList =
     \<lparr>layer_class = TextLayer, layer_id = ''text'',
      layer_data = List.map_filter textDatum agentList, pickable = False\<rparr>"

definition pointDatum :: "Agent \<Rightarrow> datum" where
  "pointDatum a = PointDatum (agent_id a) (agent_lng a, agent_lat a) 10 (22, 119, 255)"

definition pointLayer :: "Agent list \<Rightarrow> layer" where
  "pointLayer agentList =
     \<lparr>layer_class = ScatterplotLayer, layer_id = ''point'',
      layer_data = map pointDatum agentList, pickable = True\<rparr>"

text \<open>The heatmap layer (lines 201-217): \<open>a.status[key] ?? 0\<close>.\<close>

definition heatDatum :: "runtime \<Rightarrow> string \<Rightarrow> Agent \<Rightarrow> datum" where
  "heatDatum rt key a =
     HeatDatum (agent_lng a, agent_lat a)
       (case status_get rt (agent_status a) key of
          None \<Rightarrow> Data (VNum (Num 0))
        | Some v \<Rightarrow> v)"

definition heatmapLayer :: "runtime \<Rightarrow> string \<Rightarrow> Agent list \<Rightarrow> layer" where
  "heatmapLayer rt key agentList =
     \<lparr>layer_class = HeatmapLayer, layer_id = ''heatmap'',
      layer_data = map (heatDatum rt key) agentList, pickable = False\<rparr>"

text \<open>The bridge layers (lines 219-248) and their accessors.\<close>

definition bridgePoints :: "BridgeOverlay list \<Rightarrow> BridgeOverlay list" where
  "bridgePoints bridgeOverlays = filter (\<lambda>b. lng b \<noteq> None \<and> lat b \<noteq> None) bridgeOverlays"

definition bridgeLayer :: "BridgeOverlay list \<Rightarrow> layer" where
  "bridgeLayer pts =
     \<lparr>layer_class = ScatterplotLayer, layer_id = ''bridge-status'',
      layer_data = map BridgeDatum pts, pickable = True\<rparr>"

definition bridgeLabelLayer :: "BridgeOverlay list \<Rightarrow> layer" where
  "bridgeLabelLayer pts =
     \<lparr>layer_class = TextLayer, layer_id = ''bridge-status-label'',
      layer_data = map BridgeDatum pts, pickable = True\<rparr>"

definition bridge_getRadius :: "BridgeOverlay \<Rightarrow> nat" where
  "bridge_getRadius d =
     (if map_option toLowerCase (priority d) = Some ''critical'' then 180 else 140)"

definition bridge_getFillColor :: "BridgeOverlay \<Rightarrow> rgba" where
  "bridge_getFillColor d = bridgeStatusColor (priority d) (work_order_status d)"

definition bridge_getText :: "BridgeOverlay \<Rightarrow> string" where
  "bridge_getText d = (case name d of Some n \<Rightarrow> n | None \<Rightarrow> bridge_id d)"

text \<open>
  What the component reads from the store. \<open>agents\<close> is the sequence
  \<open>Array.from(store.agents.values())\<close>; \<open>bridgeOverlays\<close> may be missing
  (\<open>store.bridgeOverlays ?? []\<close>). The store has more fields than these: the record is
  used through its extensible scheme.
\<close>

record store =
  agents :: "Agent list"
  bridgeOverlays :: "BridgeOverlay list option"
  heatmapKeyInStatus :: "string option"
  mapCenter :: LngLat

text \<open>The two \<open>useState\<close> cells; both start as in the source.\<close>

record ui =
  curZoom :: jsnum
  hovering :: bool

definition initial_ui :: ui where
  "initial_ui = \<lparr>curZoom = Num (21 / 2), hovering = False\<rparr>"

text \<open>Lines 90-199: the layers drawn for the agents, pushed onto the empty list.\<close>

definition agentLayers :: "jsnum \<Rightarrow> Agent list \<Rightarrow> layer list" where
  "agentLayers z agentList =
     (if js_gt z (Num 10) then [iconLayer agentList, textLayer agentList]
      else [pointLayer agentList])"

text \<open>What the icon layer's \<open>catch\<close> clauses log during one render.\<close>

definition agentErrors :: "jsnum \<Rightarrow> Agent list \<Rightarrow> js_error list" where
  "agentErrors z agentList =
     (if js_gt z (Num 10) then concat (map (\<lambda>a. snd (iconDatum a)) agentList) else [])"

text \<open>Line 65: \<open>store.bridgeOverlays ?? []\<close>.\<close>

definition storeBridgeOverlays :: "'a store_scheme \<Rightarrow> BridgeOverlay list" where
  "storeBridgeOverlays st = (case bridgeOverlays st of None \<Rightarrow> [] | Some bs \<Rightarrow> bs)"

text \<open>Lines 63-248: the value of \<open>layers\<close> when the component returns.\<close>

definition deckLayers :: "runtime \<Rightarrow> 'a store_scheme \<Rightarrow> jsnum \<Rightarrow> layer list" where
  "deckLayers rt st z =
     (let bridges = storeBridgeOverlays st;
          agentList = agents st;
          layers1 = agentLayers z agentList;
          layers2 = (case heatmapKeyInStatus st of
                       None \<Rightarrow> layers1
                     | Some key \<Rightarrow> [heatmapLayer rt key agentList] @ layers1);
          pts = bridgePoints bridges
      in if length pts > 0 then layers2 @ [bridgeLayer pts, bridgeLabelLayer pts]
         else layers2)"

text \<open>
  What one render hands to \<open>DeckGL\<close>: the layers, the initial view state built from
  \<open>store.mapCenter\<close>, and the cursor \<open>getCursor\<close> answers with.
\<close>

record view_state =
  longitude :: jsnum
  latitude :: jsnum
  zoom :: jsnum
  pitch :: jsnum
  bearing :: jsnum
  transitionDuration :: nat

record rendered =
  layers :: "layer list"
  initialViewState :: view_state
  cursor :: string

text \<open>
  One render as a step on everything the component can touch: the store, the two state
  cells and the console. It returns what was rendered and the state afterwards.
\<close>

record 'a world =
  w_store :: "'a store_scheme"
  w_ui :: ui
  w_console :: "js_error list"

definition Deck :: "runtime \<Rightarrow> 'a world \<Rightarrow> rendered \<times> 'a world" where
  "Deck rt w =
     (let st = w_store w; u = w_ui w in
      (\<lparr>layers = deckLayers rt st (curZoom u),
        initialViewState =
          \<lparr>longitude = center_lng (mapCenter st), latitude = center_lat (mapCenter st),
           zoom = Num (21 / 2), pitch = Num 0, bearing = Num 0, transitionDuration = 2000\<rparr>,
        cursor = (if hovering u then ''pointer'' else ''grab'')\<rparr>,
       w\<lparr>w_console := w_console w @ agentErrors (curZoom u) (agents st)\<rparr>))"

section \<open>Tooltip (Deck.tsx, lines 26-34 and 274-309)\<close>

text \<open>The table \<open>LAND_USE_NAME\<close>; the labels are Chinese text, given as UTF-8 bytes.\<close>

definition LAND_USE_NAME :: "(string \<times> string) list" where
  "LAND_USE_NAME =
  [(''LAND_USE_TYPE_UNSPECIFIED'',
      [CHR 0xE6, CHR 0x9C, CHR 0xAA, CHR 0xE6, CHR 0x8C, CHR 0x87, CHR 0xE5, CHR 0xAE,
       CHR 0x9A]),
   (''LAND_USE_TYPE_COMMERCIAL'',
      [CHR 0xE5, CHR 0x95, CHR 0x86, CHR 0xE6, CHR 0x9C, CHR 0x8D, CHR 0xE7, CHR 0x94,
       CHR 0xA8, CHR 0xE5, CHR 0x9C, CHR 0xB0]),
   (''LAND_USE_TYPE_INDUSTRIAL'',
      [CHR 0xE5, CHR 0xB7, CHR 0xA5, CHR 0xE7, CHR 0x9F, CHR 0xBF, CHR 0xE4, CHR 0xBB,
       CHR 0x93, CHR 0xE5, CHR 0x82, CHR 0xA8, CHR 0xE7, CHR 0x94, CHR 0xA8, CHR 0xE5,
       CHR 0x9C, CHR 0xB0]),
   (''LAND_USE_TYPE_RESIDENTIAL'',
      [CHR 0xE4, CHR 0xBD, CHR 0x8F, CHR 0xE5, CHR 0xAE, CHR 0x85, CHR 0xE7, CHR 0x94,
       CHR 0xA8, CHR 0xE5, CHR 0x9C, CHR 0xB0]),
   (''LAND_USE_TYPE_PUBLIC'',
      [CHR 0xE5, CHR 0x85, CHR 0xAC, CHR 0xE5, CHR 0x85, CHR 0xB1, CHR 0xE7, CHR 0xAE,
       CHR 0xA1, CHR 0xE7, CHR 0x90, CHR 0x86, CHR 0xE4, CHR 0xB8, CHR 0x8E, CHR 0xE5,
       CHR 0x85, CHR 0xAC, CHR 0xE5, CHR 0x85, CHR 0xB1, CHR 0xE6, CHR 0x9C, CHR 0x8D,
       CHR 0xE5, CHR 0x8A, CHR 0xA1, CHR 0xE7, CHR 0x94, CHR 0xA8, CHR 0xE5, CHR 0x9C,
       CHR 0xB0]),
   (''LAND_USE_TYPE_TRANSPORTATION'',
      [CHR 0xE4, CHR 0xBA, CHR 0xA4, CHR 0xE9, CHR 0x80, CHR 0x9A, CHR 0xE8, CHR 0xBF,
       CHR 0x90, CHR 0xE8, CHR 0xBE, CHR 0x93, CHR 0xE7, CHR 0x94, CHR 0xA8, CHR 0xE5,
       CHR 0x9C, CHR 0xB0]),
   (''LAND_USE_TYPE_OTHER'',
      [CHR 0xE5, CHR 0x85, CHR 0xB6, CHR 0xE4, CHR 0xBB, CHR 0x96, CHR 0xE5, CHR 0x9C,
       CHR 0x9F, CHR 0xE5, CHR 0x9C, CHR 0xB0])]"

text \<open>
  \<open>object.id\<close> and \<open>object.properties\<close> on a picked object: \<open>undefined\<close> where the
  object has no such field.
\<close>

fun datum_id :: "datum \<Rightarrow> jsval option" where
  "datum_id (IconDatum i c u) = Some (VNum i)"
| "datum_id (TextDatum i p x) = Some (VNum i)"
| "datum_id (PointDatum i p r c) = Some (VNum i)"
| "datum_id (HeatDatum p w) = None"
| "datum_id (BridgeDatum b) = None"
| "datum_id (AoiFeature i ps) = i"

fun datum_properties :: "datum \<Rightarrow> AoiProperties option" where
  "datum_properties (AoiFeature i ps) = ps"
| "datum_properties _ = None"

text \<open>
  The fields the bridge branch reads through \<open>object as any\<close>. Only a bridge overlay
  has any of them; on every other object each read gives \<open>undefined\<close>.
\<close>

record any_info =
  i_name :: "string option"
  i_bridge_id :: "string option"
  i_status :: "string option"
  i_work_order_status :: "string option"
  i_priority :: "string option"
  i_action :: "string option"
  i_due_date :: "string option"
  i_days_overdue :: "jsnum option"

fun as_any :: "datum \<Rightarrow> any_info" where
  "as_any (BridgeDatum b) =
     \<lparr>i_name = name b, i_bridge_id = Some (bridge_id b), i_status = status b,
      i_work_order_status = work_order_status b, i_priority = priority b,
      i_action = action b, i_due_date = due_date b, i_days_overdue = days_overdue b\<rparr>"
| "as_any _ =
     \<lparr>i_name = None, i_bridge_id = None, i_status = None, i_work_order_status = None,
      i_priority = None, i_action = None, i_due_date = None, i_days_overdue = None\<rparr>"

text \<open>A template literal prints an undefined value as the word \<open>undefined\<close>.\<close>

fun template_str :: "string option \<Rightarrow> string" where
  "template_str None = ''undefined''"
| "template_str (Some s) = s"

text \<open>
  The pieces of the bridge tooltip (lines 280-283). \<open>showNum\<close> is the number-to-string
  conversion of the JavaScript runtime, which a template literal applies to a number; it
  is not code of the component and is taken as a parameter.
\<close>

definition tooltip_header :: "any_info \<Rightarrow> string" where
  "tooltip_header info =
     template_str (case i_name info of Some n \<Rightarrow> Some n | None \<Rightarrow> i_bridge_id info)"

definition tooltip_statusLine :: "any_info \<Rightarrow> string" where
  "tooltip_statusLine info =
     (let st = (case i_status info of Some s \<Rightarrow> s | None \<Rightarrow> ''work_order'') in
      case i_work_order_status info of
        None \<Rightarrow> st
      | Some w \<Rightarrow> if w \<noteq> [] then st @ '' - '' @ w else st)"

definition tooltip_due :: "(jsnum \<Rightarrow> string) \<Rightarrow> any_info \<Rightarrow> string" where
  "tooltip_due showNum info =
     (case i_days_overdue info of
        Some n \<Rightarrow> ''Overdue: '' @ showNum n @ '' days''
      | None \<Rightarrow>
          (case i_due_date info of
             None \<Rightarrow> []
           | Some d \<Rightarrow> if d \<noteq> [] then ''Due: '' @ d else []))"

definition tooltip_risk :: "any_info \<Rightarrow> string" where
  "tooltip_risk info =
     (case i_priority info of
        None \<Rightarrow> []
      | Some p \<Rightarrow> if p \<noteq> [] then ''Priority: '' @ p else [])"

record tooltip =
  html :: string
  backgroundColor :: string
  text_color :: string
  padding :: "string option"

definition bridgeTooltip :: "(jsnum \<Rightarrow> string) \<Rightarrow> datum \<Rightarrow> tooltip" where
  "bridgeTooltip showNum object =
     (let info = as_any object in
      \<lparr>html = ''<b>'' @ tooltip_header info @ ''</b><br/>'' @ tooltip_statusLine info @
              ''<br/>'' @ tooltip_risk info @ ''<br/>'' @
              (case i_action info of Some a \<Rightarrow> a | None \<Rightarrow> []) @ ''<br/>'' @
              tooltip_due showNum info,
       backgroundColor = ''rgba(0, 0, 0, 0.75)'', text_color = ''white'',
       padding = Some ''6px 8px''\<rparr>)"

fun template_val :: "(jsnum \<Rightarrow> string) \<Rightarrow> jsval \<Rightarrow> string" where
  "template_val showNum (VStr s) = s"
| "template_val showNum (VNum n) = showNum n"

definition aoiTooltip :: "(jsnum \<Rightarrow> string) \<Rightarrow> datum \<Rightarrow> tooltip option" where
  "aoiTooltip showNum object =
     (let name' = Option.bind (datum_properties object) aoi_name;
          id' = datum_id object;
          landUse = Option.bind (Option.bind (datum_properties object) land_use)
                      (map_of LAND_USE_NAME)
      in case (name', id', landUse) of
           (Some n, Some i, Some u) \<Rightarrow>
             Some \<lparr>html = ''<b>'' @ n @ ''</b><br/>ID = '' @ template_val showNum i @
                          ''<br/>'' @ u,
                   backgroundColor = ''rgba(0, 0, 0, 0.8)'', text_color = ''white'',
                   padding = None\<rparr>
         | _ \<Rightarrow> None)"

definition getTooltip ::
  "(jsnum \<Rightarrow> string) \<Rightarrow> datum option \<Rightarrow> layer option \<Rightarrow> tooltip option" where
  "getTooltip showNum object layer' =
     (case (object, layer') of
        (Some obj, Some l) \<Rightarrow>
          if layer_id l = ''bridge-status'' \<or> layer_id l = ''bridge-status-label''
          then Some (bridgeTooltip showNum obj)
          else if layer_id l = ''aoi'' then aoiTooltip showNum obj
          else None
      | _ \<Rightarrow> None)"

section \<open>Click (Deck.tsx, lines 310-328)\<close>

record picking_info =
  pi_layer :: "layer option"
  pi_object :: "datum option"
  pi_coordinate :: "(jsnum \<times> jsnum) option"

record click_event =
  leftButton :: bool

text \<open>
  What the handler does to the outside: it writes to the console and it calls the store's
  \<open>setClickedAgentID\<close>. The handler is the sequence of its calls, in order, and the
  exception that rejects its promise, if any: reading \<open>object.id\<close> throws when no
  object was picked.
\<close>

datatype effect =
    ConsoleLog picking_info click_event
  | SetClickedAgentID "jsval option"

definition onClick :: "picking_info \<Rightarrow> click_event \<Rightarrow> effect list \<times> js_error option" where
  "onClick info event =
     (let logged = [ConsoleLog info event] in
      if leftButton event then
        (case pi_layer info of
           None \<Rightarrow> (logged, None)
         | Some l \<Rightarrow>
             if layer_id l = ''icon'' \<or> layer_id l = ''point'' \<or> layer_id l = ''text'' then
               (case pi_object info of
                  None \<Rightarrow> (logged, Some TypeError)
                | Some obj \<Rightarrow> (logged @ [SetClickedAgentID (datum_id obj)], None))
             else (logged, None))
      else (logged, None))"

text \<open>The calls of \<open>setClickedAgentID\<close> among the effects, with their arguments.\<close>

fun setClickedAgentID_calls :: "effect list \<Rightarrow> jsval option list" where
  "setClickedAgentID_calls [] = []"
| "setClickedAgentID_calls (ConsoleLog i e # es) = setClickedAgentID_calls es"
| "setClickedAgentID_calls (SetClickedAgentID v # es) = v # setClickedAgentID_calls es"

section \<open>Example data\<close>

text \<open>Concrete agents, bridge overlays and stores on which the properties are evaluated.\<close>

definition alice :: Agent where
  "alice = \<lparr>agent_id = Num 1, agent_name = ''Alice'',
     agent_profile = ProfileObj [''gender'' \<mapsto> VStr ''male'', ''age'' \<mapsto> VNum (Num 10)],
     day = Num 0, t = Num 0, agent_lng = Num 116, agent_lat = Num 40, parent_id = Num 0,
     agent_action = ''walk'', agent_status = StatusObj [''income'' \<mapsto> VNum (Num 5)]\<rparr>"

definition nameless :: Agent where
  "nameless = \<lparr>agent_id = Num 2, agent_name = [],
     agent_profile = ProfileNull,
     day = Num 0, t = Num 0, agent_lng = Num 117, agent_lat = Num 41, parent_id = Num 0,
     agent_action = ''sleep'', agent_status = StatusStr [0x69, 0x64, 0x6C, 0x65]\<rparr>"

definition bridge1 :: BridgeOverlay where
  "bridge1 = \<lparr>bridge_id = ''B-1'', name = None, priority = Some ''Critical'', risk = None,
     status = None, work_order_status = Some ''IN_PROGRESS'', action = Some ''inspect'',
     due_date = Some ''2025-01-01'', days_overdue = None, lng = Some (Num 116),
     lat = Some (Num 40), last_update = None\<rparr>"

definition bridge2 :: BridgeOverlay where
  "bridge2 = \<lparr>bridge_id = ''B-2'', name = Some ''Old Bridge'', priority = Some ''low'',
     risk = None, status = Some ''open'', work_order_status = None, action = None,
     due_date = None, days_overdue = Some (Num 3), lng = Some (Num 117), lat = None,
     last_update = None\<rparr>"

definition store0 :: store where
  "store0 = \<lparr>agents = [alice, nameless], bridgeOverlays = None, heatmapKeyInStatus = None,
     mapCenter = \<lparr>center_lng = Num 116, center_lat = Num 40\<rparr>\<rparr>"

definition store1 :: store where
  "store1 = store0\<lparr>bridgeOverlays := Some [bridge2, bridge1]\<rparr>"

definition store2 :: store where
  "store2 = store0\<lparr>bridgeOverlays := Some [bridge2]\<rparr>"


definition world0 :: "unit world" where
  "world0 = \<lparr>w_store = store0, w_ui = \<lparr>curZoom = Num 11, hovering = False\<rparr>,
     w_console = []\<rparr>"

text \<open>
  A runtime with the properties of \<open>Object.prototype\<close> and \<open>String.prototype\<close> of
  ECMAScript 2024 (Annex B included).
\<close>

definition es_runtime :: runtime where
  "es_runtime =
     \<lparr>objectProto =
        [''constructor'', ''hasOwnProperty'', ''isPrototypeOf'', ''propertyIsEnumerable'',
         ''toLocaleString'', ''toString'', ''valueOf'', ''__proto__'', ''__defineGetter__'',
         ''__defineSetter__'', ''__lookupGetter__'', ''__lookupSetter__''],
      stringProto =
        [''length'', ''constructor'', ''at'', ''charAt'', ''charCodeAt'', ''codePointAt'',
         ''concat'', ''endsWith'', ''includes'', ''indexOf'', ''isWellFormed'',
         ''lastIndexOf'', ''localeCompare'', ''match'', ''matchAll'', ''normalize'',
         ''padEnd'', ''padStart'', ''repeat'', ''replace'', ''replaceAll'', ''search'',
         ''slice'', ''split'', ''startsWith'', ''substring'', ''toLocaleLowerCase'',
         ''toLocaleUpperCase'', ''toLowerCase'', ''toString'', ''toUpperCase'',
         ''toWellFormed'', ''trim'', ''trimEnd'', ''trimStart'', ''valueOf'', ''substr'',
         ''anchor'', ''big'', ''blink'', ''bold'', ''fixed'', ''fontcolor'', ''fontsize'',
         ''italics'', ''link'', ''small'', ''strike'', ''sub'', ''sup'', ''trimLeft'',
         ''trimRight'']\<rparr>"

definition aoi_layer :: layer where
  "aoi_layer = \<lparr>layer_class = GeoJsonLayer, layer_id = ''aoi'', layer_data = [],
     pickable = True\<rparr>"

text \<open>A number-to-string conversion for the examples, right on the one number they print.\<close>

definition showNum_sample :: "jsnum \<Rightarrow> string" where
  "showNum_sample n = (if n = Num 3 then ''3'' else ''?'')"

section \<open>Properties\<close>

subsection \<open>Auxiliary facts\<close>

lemma str_includes_iff_sublist: "str_includes s sub \<longleftrightarrow> sublist sub s"
  by (induction s) (auto simp: sublist_Cons_right)

lemma str_includes_iff: "str_includes s sub \<longleftrightarrow> (\<exists>pre suf. s = pre @ sub @ suf)"
  by (simp add: str_includes_iff_sublist sublist_def)

lemma js_gt_Num: "js_gt (Num r) (Num k) \<longleftrightarrow> k < r"
  by (simp add: js_gt_def)

lemma bridgeStatusColor_cases:
  "bridgeStatusColor p w =
     (if \<exists>s. w = Some s \<and> str_includes (toLowerCase s) ''progress''
      then BRIDGE_COLORS_inProgress
      else if \<exists>q. p = Some q \<and> toLowerCase q = ''critical''
      then BRIDGE_COLORS_critical
      else BRIDGE_COLORS_default)"
  by (cases w; cases p) (auto simp: bridgeStatusColor_def toLowerCase_def)

lemma map_filter_textDatum:
  "List.map_filter textDatum as =
     map (\<lambda>a. TextDatum (agent_id a) (agent_lng a, agent_lat a) (agent_name a))
       (filter (\<lambda>a. agent_name a \<noteq> []) as)"
  by (induction as) (simp_all add: List.map_filter_def textDatum_def)

lemma iconDatum_shape:
  "\<exists>u. fst (iconDatum a) = IconDatum (agent_id a) (agent_lng a, agent_lat a) u"
  by (simp add: iconDatum_def split: sum.split)

lemma agentLayers_ids:
  "l \<in> set (agentLayers z as) \<Longrightarrow> layer_id l \<in> {''icon'', ''text'', ''point''}"
  by (auto simp: agentLayers_def iconLayer_def textLayer_def pointLayer_def split: if_splits)


lemma bridgePoints_empty_iff:
  "bridgePoints bs = [] \<longleftrightarrow> \<not> (\<exists>b\<in>set bs. lng b \<noteq> None \<and> lat b \<noteq> None)"
  by (auto simp: bridgePoints_def filter_empty_conv)

lemma storeBridgeOverlays_None:
  "storeBridgeOverlays (st\<lparr>bridgeOverlays := None\<rparr>) = []"
  by (simp add: storeBridgeOverlays_def)

lemma deckLayers_no_bridges:
  "deckLayers rt (st\<lparr>bridgeOverlays := None\<rparr>) z =
     (case heatmapKeyInStatus st of
        None \<Rightarrow> agentLayers z (agents st)
      | Some key \<Rightarrow> heatmapLayer rt key (agents st) # agentLayers z (agents st))"
  by (simp add: deckLayers_def Let_def bridgePoints_def storeBridgeOverlays_None
      split: option.split)

lemma deckLayers_split:
  "deckLayers rt st z =
     deckLayers rt (st\<lparr>bridgeOverlays := None\<rparr>) z @
     (if bridgePoints (storeBridgeOverlays st) = [] then []
      else [bridgeLayer (bridgePoints (storeBridgeOverlays st)),
            bridgeLabelLayer (bridgePoints (storeBridgeOverlays st))])"
  by (simp add: deckLayers_no_bridges) (simp add: deckLayers_def Let_def split: option.split)

lemma deckLayers_no_bridges_ids:
  "l \<in> set (deckLayers rt (st\<lparr>bridgeOverlays := None\<rparr>) z) \<Longrightarrow>
     layer_id l \<in> {''heatmap'', ''icon'', ''text'', ''point''}"
  by (auto simp: deckLayers_no_bridges heatmapLayer_def split: option.splits
      dest: agentLayers_ids)

subsection \<open>Zoom and the agent layers\<close>

text \<open>
  C1, as amended. The test of the source is \<open>curZoom > 10\<close>. For every zoom strictly
  above 10 the agent layers are the icon layer, with one entry per agent carrying that
  agent's id and position, and the text layer, with one entry for each agent whose name
  is not empty, in order. For every other zoom (at or below 10, or not comparable with
  10) the agent layers are the point layer alone, with one entry per agent, each of radius
  10 and colour (22, 119, 255).
\<close>

theorem agent_layers_by_zoom:
  "(js_gt z (Num 10) \<longrightarrow>
      agentLayers z as = [iconLayer as, textLayer as]
      \<and> layer_id (iconLayer as) = ''icon'' \<and> layer_id (textLayer as) = ''text''
      \<and> length (layer_data (iconLayer as)) = length as
      \<and> (\<forall>i < length as. \<exists>u. layer_data (iconLayer as) ! i =
            IconDatum (agent_id (as ! i)) (agent_lng (as ! i), agent_lat (as ! i)) u)
      \<and> layer_data (textLayer as) =
          map (\<lambda>a. TextDatum (agent_id a) (agent_lng a, agent_lat a) (agent_name a))
            (filter (\<lambda>a. agent_name a \<noteq> []) as))
   \<and> (\<not> js_gt z (Num 10) \<longrightarrow>
      agentLayers z as = [pointLayer as]
      \<and> layer_id (pointLayer as) = ''point''
      \<and> layer_data (pointLayer as) =
          map (\<lambda>a. PointDatum (agent_id a) (agent_lng a, agent_lat a) 10 (22, 119, 255)) as
      \<and> length (layer_data (pointLayer as)) = length as)
   \<and> (js_gt (Num r) (Num 10) \<longleftrightarrow> 10 < r)"
proof -
  have icon: "\<forall>i < length as. \<exists>u. layer_data (iconLayer as) ! i =
            IconDatum (agent_id (as ! i)) (agent_lng (as ! i), agent_lat (as ! i)) u"
    using iconDatum_shape by (simp add: iconLayer_def)
  have txd: "layer_data (textLayer as) =
          map (\<lambda>a. TextDatum (agent_id a) (agent_lng a, agent_lat a) (agent_name a))
            (filter (\<lambda>a. agent_name a \<noteq> []) as)"
    by (simp add: textLayer_def map_filter_textDatum)
  have pt: "layer_data (pointLayer as) =
          map (\<lambda>a. PointDatum (agent_id a) (agent_lng a, agent_lat a) 10 (22, 119, 255)) as"
    by (simp add: pointLayer_def pointDatum_def)
  show ?thesis
    using icon txd pt
    by (simp add: agentLayers_def iconLayer_def textLayer_def pointLayer_def js_gt_Num)
qed

text \<open>The amended statement at zoom 11 and at zoom 10, on two agents one of which has no name.\<close>

theorem agent_layers_by_zoom_witness:
  "js_gt (Num 11) (Num 10)
   \<and> agentLayers (Num 11) [alice, nameless] =
       [iconLayer [alice, nameless], textLayer [alice, nameless]]
   \<and> length (layer_data (iconLayer [alice, nameless])) = 2
   \<and> layer_data (textLayer [alice, nameless]) =
       [TextDatum (Num 1) (Num 116, Num 40) ''Alice'']
   \<and> \<not> js_gt (Num 10) (Num 10)
   \<and> agentLayers (Num 10) [alice, nameless] = [pointLayer [alice, nameless]]
   \<and> layer_data (pointLayer [alice, nameless]) =
        [PointDatum (Num 1) (Num 116, Num 40) 10 (22, 119, 255),
         PointDatum (Num 2) (Num 117, Num 41) 10 (22, 119, 255)]"
proof -
  have h1: "js_gt (Num 11) (Num 10)" and h2: "\<not> js_gt (Num 10) (Num 10)"
    by (simp_all add: js_gt_def)
  have c1: "agentLayers (Num 11) [alice, nameless] =
       [iconLayer [alice, nameless], textLayer [alice, nameless]]"
    and c2: "length (layer_data (iconLayer [alice, nameless])) = length [alice, nameless]"
    and c3: "layer_data (textLayer [alice, nameless]) =
          map (\<lambda>a. TextDatum (agent_id a) (agent_lng a, agent_lat a) (agent_name a))
            (filter (\<lambda>a. agent_name a \<noteq> []) [alice, nameless])"
    using agent_layers_by_zoom [of "Num 11" "[alice, nameless]" 11] h1 by blast+
  have c4: "agentLayers (Num 10) [alice, nameless] = [pointLayer [alice, nameless]]"
    and c5: "layer_data (pointLayer [alice, nameless]) =
          map (\<lambda>a. PointDatum (agent_id a) (agent_lng a, agent_lat a) 10 (22, 119, 255))
            [alice, nameless]"
    using agent_layers_by_zoom [of "Num 10" "[alice, nameless]" 10] h2 by blast+
  show ?thesis
    using h1 h2 c1 c2 c3 c4 c5 by (simp add: alice_def nameless_def)
qed

text \<open>
  The claim as written fails at zoom 10, which is at the threshold: the agents are drawn as
  points, and neither the icon layer nor the text layer is there.
\<close>

theorem agent_layers_by_zoom_counterexample:
  "agentLayers (Num 10) [alice] = [pointLayer [alice]]
   \<and> map layer_id (agentLayers (Num 10) [alice]) = [''point'']
   \<and> iconLayer [alice] \<notin> set (agentLayers (Num 10) [alice])
   \<and> textLayer [alice] \<notin> set (agentLayers (Num 10) [alice])"
  by (simp add: agentLayers_def js_gt_def pointLayer_def iconLayer_def textLayer_def)

subsection \<open>Bridge status colour\<close>

text \<open>
  C2. A work-order status whose lower-case form contains \<open>progress\<close> gives the
  in-progress colour whatever the priority; otherwise a priority whose lower-case form is
  \<open>critical\<close> gives the critical colour; otherwise the colour is the default one. The
  three colours are different.
\<close>

theorem bridgeStatusColor_precedence:
  "bridgeStatusColor p w =
     (if \<exists>s. w = Some s \<and> str_includes (toLowerCase s) ''progress''
      then BRIDGE_COLORS_inProgress
      else if \<exists>q. p = Some q \<and> toLowerCase q = ''critical''
      then BRIDGE_COLORS_critical
      else BRIDGE_COLORS_default)
   \<and> distinct [BRIDGE_COLORS_inProgress, BRIDGE_COLORS_critical, BRIDGE_COLORS_default]"
  by (simp add: bridgeStatusColor_cases [of p w] BRIDGE_COLORS_inProgress_def
      BRIDGE_COLORS_critical_def BRIDGE_COLORS_default_def)

text \<open>The precedence on five inputs, one for each way through the function.\<close>

theorem bridgeStatusColor_precedence_witness:
  "bridgeStatusColor (Some ''Critical'') (Some ''In_Progress'') = (255, 165, 0, 220)
   \<and> bridgeStatusColor (Some ''CRITICAL'') (Some ''open'') = (220, 53, 69, 220)
   \<and> bridgeStatusColor (Some ''CRITICAL'') None = (220, 53, 69, 220)
   \<and> bridgeStatusColor None None = (52, 152, 219, 200)
   \<and> bridgeStatusColor (Some ''high'') (Some []) = (52, 152, 219, 200)"
  using bridgeStatusColor_precedence [of "Some ''Critical''" "Some ''In_Progress''"]
    bridgeStatusColor_precedence [of "Some ''CRITICAL''" "Some ''open''"]
    bridgeStatusColor_precedence [of "Some ''CRITICAL''" "None"]
    bridgeStatusColor_precedence [of "None" "None"]
    bridgeStatusColor_precedence [of "Some ''high''" "Some []"]
  by (simp add: toLowerCase_def lower_char_def BRIDGE_COLORS_inProgress_def
      BRIDGE_COLORS_critical_def BRIDGE_COLORS_default_def)

subsection \<open>Icon selection\<close>

text \<open>
  C3. For a profile dictionary with gender \<open>male\<close> and a numeric age the icon is boy1
  below 18, boy2 from 18 and below 65, boy3 from 65; likewise girl1, girl2, girl3 for
  gender \<open>female\<close>. An undefined profile gives the default icon, and so does an age that
  is not a number. Nothing is logged in these cases. In particular male and 10 is boy1,
  female and 40 is girl2.
\<close>

theorem icon_selection:
  "(agent_profile a = ProfileObj p \<and> p ''gender'' = Some (VStr ''male'')
      \<and> p ''age'' = Some (VNum (Num r)) \<longrightarrow>
      iconDatum a =
        (IconDatum (agent_id a) (agent_lng a, agent_lat a)
           (if r < 18 then ''/icon/boy1.png''
            else if r < 65 then ''/icon/boy2.png'' else ''/icon/boy3.png''), []))
   \<and> (agent_profile a = ProfileObj p \<and> p ''gender'' = Some (VStr ''female'')
      \<and> p ''age'' = Some (VNum (Num r)) \<longrightarrow>
      iconDatum a =
        (IconDatum (agent_id a) (agent_lng a, agent_lat a)
           (if r < 18 then ''/icon/girl1.png''
            else if r < 65 then ''/icon/girl2.png'' else ''/icon/girl3.png''), []))
   \<and> (agent_profile a = ProfileUndefined \<longrightarrow>
      iconDatum a =
        (IconDatum (agent_id a) (agent_lng a, agent_lat a) ''/icon/agent.png'', []))
   \<and> (agent_profile a = ProfileObj p \<and> (\<forall>n. p ''age'' \<noteq> Some (VNum n)) \<longrightarrow>
      iconDatum a =
        (IconDatum (agent_id a) (agent_lng a, agent_lat a) ''/icon/agent.png'', []))"
  by (auto simp: iconDatum_def avatarOfProfile_def Let_def split: option.split jsval.split)

text \<open>The four examples of the claim: male 10, female 40, no profile, age given as text.\<close>

theorem icon_selection_witness:
  "iconDatum alice = (IconDatum (Num 1) (Num 116, Num 40) ''/icon/boy1.png'', [])
   \<and> iconDatum (alice\<lparr>agent_profile :=
        ProfileObj [''gender'' \<mapsto> VStr ''female'', ''age'' \<mapsto> VNum (Num 40)]\<rparr>) =
       (IconDatum (Num 1) (Num 116, Num 40) ''/icon/girl2.png'', [])
   \<and> iconDatum (alice\<lparr>agent_profile := ProfileUndefined\<rparr>) =
       (IconDatum (Num 1) (Num 116, Num 40) ''/icon/agent.png'', [])
   \<and> iconDatum (alice\<lparr>agent_profile :=
        ProfileObj [''gender'' \<mapsto> VStr ''male'', ''age'' \<mapsto> VStr ''10'']\<rparr>) =
       (IconDatum (Num 1) (Num 116, Num 40) ''/icon/agent.png'', [])"
  using icon_selection [of alice "[''gender'' \<mapsto> VStr ''male'', ''age'' \<mapsto> VNum (Num 10)]" 10]
    icon_selection [of "alice\<lparr>agent_profile :=
        ProfileObj [''gender'' \<mapsto> VStr ''female'', ''age'' \<mapsto> VNum (Num 40)]\<rparr>"
      "[''gender'' \<mapsto> VStr ''female'', ''age'' \<mapsto> VNum (Num 40)]" 40]
    icon_selection [of "alice\<lparr>agent_profile := ProfileUndefined\<rparr>" Map.empty 0]
    icon_selection [of "alice\<lparr>agent_profile :=
        ProfileObj [''gender'' \<mapsto> VStr ''male'', ''age'' \<mapsto> VStr ''10'']\<rparr>"
      "[''gender'' \<mapsto> VStr ''male'', ''age'' \<mapsto> VStr ''10'']" 0]
  by (simp add: alice_def)

subsection \<open>Bridge layers\<close>

text \<open>
  C4. When some bridge overlay has both \<open>lng\<close> and \<open>lat\<close> defined, the layer list is
  the list without bridge overlays followed by the status marker layer and the label
  layer; when none has, it is the list without bridge overlays, which holds no layer
  with either of the two bridge ids. The data of both layers are exactly the overlays
  with both coordinates, in order.
\<close>

theorem bridge_layers_presence:
  "((\<exists>b\<in>set (storeBridgeOverlays st). lng b \<noteq> None \<and> lat b \<noteq> None) \<longrightarrow>
      deckLayers rt st z =
        deckLayers rt (st\<lparr>bridgeOverlays := None\<rparr>) z @
        [bridgeLayer (bridgePoints (storeBridgeOverlays st)),
         bridgeLabelLayer (bridgePoints (storeBridgeOverlays st))])
   \<and> (\<not> (\<exists>b\<in>set (storeBridgeOverlays st). lng b \<noteq> None \<and> lat b \<noteq> None) \<longrightarrow>
      deckLayers rt st z = deckLayers rt (st\<lparr>bridgeOverlays := None\<rparr>) z)
   \<and> (\<forall>l\<in>set (deckLayers rt (st\<lparr>bridgeOverlays := None\<rparr>) z).
        layer_id l \<noteq> ''bridge-status'' \<and> layer_id l \<noteq> ''bridge-status-label'')
   \<and> layer_id (bridgeLayer pts) = ''bridge-status''
   \<and> layer_id (bridgeLabelLayer pts) = ''bridge-status-label''
   \<and> layer_data (bridgeLayer (bridgePoints bs)) =
        map BridgeDatum (filter (\<lambda>b. lng b \<noteq> None \<and> lat b \<noteq> None) bs)
   \<and> layer_data (bridgeLabelLayer (bridgePoints bs)) =
        map BridgeDatum (filter (\<lambda>b. lng b \<noteq> None \<and> lat b \<noteq> None) bs)"
proof -
  have a: "(\<exists>b\<in>set (storeBridgeOverlays st). lng b \<noteq> None \<and> lat b \<noteq> None) \<Longrightarrow>
      deckLayers rt st z =
        deckLayers rt (st\<lparr>bridgeOverlays := None\<rparr>) z @
        [bridgeLayer (bridgePoints (storeBridgeOverlays st)),
         bridgeLabelLayer (bridgePoints (storeBridgeOverlays st))]"
    using deckLayers_split [of rt st z] bridgePoints_empty_iff [of "storeBridgeOverlays st"]
    by simp
  have b: "\<not> (\<exists>b\<in>set (storeBridgeOverlays st). lng b \<noteq> None \<and> lat b \<noteq> None) \<Longrightarrow>
      deckLayers rt st z = deckLayers rt (st\<lparr>bridgeOverlays := None\<rparr>) z"
    using deckLayers_split [of rt st z] bridgePoints_empty_iff [of "storeBridgeOverlays st"]
    by simp
  have c: "\<forall>l\<in>set (deckLayers rt (st\<lparr>bridgeOverlays := None\<rparr>) z).
        layer_id l \<noteq> ''bridge-status'' \<and> layer_id l \<noteq> ''bridge-status-label''"
    using deckLayers_no_bridges_ids [of _ rt st z] by fastforce
  have d: "layer_id (bridgeLayer pts) = ''bridge-status''"
    "layer_id (bridgeLabelLayer pts) = ''bridge-status-label''"
    by (simp_all add: bridgeLayer_def bridgeLabelLayer_def)
  have e: "layer_data (bridgeLayer (bridgePoints bs)) =
        map BridgeDatum (filter (\<lambda>b. lng b \<noteq> None \<and> lat b \<noteq> None) bs)"
    "layer_data (bridgeLabelLayer (bridgePoints bs)) =
        map BridgeDatum (filter (\<lambda>b. lng b \<noteq> None \<and> lat b \<noteq> None) bs)"
    by (simp_all add: bridgeLayer_def bridgeLabelLayer_def bridgePoints_def)
  show ?thesis using a b c d e by blast
qed

text \<open>
  A store with one complete and one incomplete overlay, and a store with the incomplete
  one only.
\<close>

theorem bridge_layers_presence_witness:
  "(\<exists>b\<in>set (storeBridgeOverlays store1). lng b \<noteq> None \<and> lat b \<noteq> None)
   \<and> deckLayers es_runtime store1 (Num 9) =
       deckLayers es_runtime (store1\<lparr>bridgeOverlays := None\<rparr>) (Num 9) @
       [bridgeLayer (bridgePoints (storeBridgeOverlays store1)),
        bridgeLabelLayer (bridgePoints (storeBridgeOverlays store1))]
   \<and> deckLayers es_runtime store1 (Num 9) =
       [pointLayer [alice, nameless], bridgeLayer [bridge1], bridgeLabelLayer [bridge1]]
   \<and> \<not> (\<exists>b\<in>set (storeBridgeOverlays store2). lng b \<noteq> None \<and> lat b \<noteq> None)
   \<and> deckLayers es_runtime store2 (Num 9) = deckLayers es_runtime (store2\<lparr>bridgeOverlays := None\<rparr>) (Num 9)
   \<and> deckLayers es_runtime store2 (Num 9) = [pointLayer [alice, nameless]]"
proof -
  have h1: "\<exists>b\<in>set (storeBridgeOverlays store1). lng b \<noteq> None \<and> lat b \<noteq> None"
    by (simp add: store1_def store0_def storeBridgeOverlays_def bridge1_def)
  have c1: "deckLayers es_runtime store1 (Num 9) =
       deckLayers es_runtime (store1\<lparr>bridgeOverlays := None\<rparr>) (Num 9) @
       [bridgeLayer (bridgePoints (storeBridgeOverlays store1)),
        bridgeLabelLayer (bridgePoints (storeBridgeOverlays store1))]"
    using bridge_layers_presence [of store1 es_runtime "Num 9" "[]" "[]"] h1 by blast
  have e1: "deckLayers es_runtime store1 (Num 9) =
       [pointLayer [alice, nameless], bridgeLayer [bridge1], bridgeLabelLayer [bridge1]]"
    by (simp add: deckLayers_def Let_def store1_def store0_def storeBridgeOverlays_def
        bridgePoints_def bridge1_def bridge2_def agentLayers_def js_gt_def)
  have h2: "\<not> (\<exists>b\<in>set (storeBridgeOverlays store2). lng b \<noteq> None \<and> lat b \<noteq> None)"
    by (simp add: store2_def store0_def storeBridgeOverlays_def bridge2_def)
  have c2: "deckLayers es_runtime store2 (Num 9) = deckLayers es_runtime (store2\<lparr>bridgeOverlays := None\<rparr>) (Num 9)"
    using bridge_layers_presence [of store2 es_runtime "Num 9" "[]" "[]"] h2 by blast
  have e2: "deckLayers es_runtime store2 (Num 9) = [pointLayer [alice, nameless]]"
    by (simp add: deckLayers_def Let_def store2_def store0_def storeBridgeOverlays_def
        bridgePoints_def bridge2_def agentLayers_def js_gt_def)
  show ?thesis using h1 c1 e1 h2 c2 e2 by blast
qed

subsection \<open>Heatmap layer\<close>




subsection \<open>A failing profile\<close>

text \<open>
  C6. When reading the profile of an agent throws, the exception is caught: the agent's
  icon entry is still produced, with the default icon, and the exception is what the
  entry logs. At a zoom above 10 that entry is in the icon layer and the exception is in
  the errors the render logs; the icon layer has one entry per agent whatever the
  profiles are; and a render returns, its console being the old one followed by the
  logged errors.
\<close>

theorem profile_failure_is_caught:
  "(tryAvatar (agent_profile a) = Inl e \<longrightarrow>
      iconDatum a =
        (IconDatum (agent_id a) (agent_lng a, agent_lat a) ''/icon/agent.png'', [e]))
   \<and> (a \<in> set as \<and> js_gt z (Num 10) \<and> tryAvatar (agent_profile a) = Inl e \<longrightarrow>
      agentLayers z as = [iconLayer as, textLayer as]
      \<and> IconDatum (agent_id a) (agent_lng a, agent_lat a) ''/icon/agent.png''
          \<in> set (layer_data (iconLayer as))
      \<and> e \<in> set (agentErrors z as))
   \<and> length (layer_data (iconLayer as)) = length as
   \<and> w_console (snd (Deck rt w)) =
       w_console w @ agentErrors (curZoom (w_ui w)) (agents (w_store w))"
proof -
  have one: "tryAvatar (agent_profile a) = Inl e \<Longrightarrow>
      iconDatum a =
        (IconDatum (agent_id a) (agent_lng a, agent_lat a) ''/icon/agent.png'', [e])"
    by (simp add: iconDatum_def)
  have two: "IconDatum (agent_id a) (agent_lng a, agent_lat a) ''/icon/agent.png''
          \<in> set (layer_data (iconLayer as))"
    if "a \<in> set as" "tryAvatar (agent_profile a) = Inl e"
  proof -
    have "fst (iconDatum a) \<in> (\<lambda>a. fst (iconDatum a)) ` set as"
      using that(1) by (rule imageI)
    then show ?thesis using one [OF that(2)] by (simp add: iconLayer_def)
  qed
  have three: "e \<in> set (agentErrors z as)"
    if "a \<in> set as" "js_gt z (Num 10)" "tryAvatar (agent_profile a) = Inl e"
  proof -
    have "e \<in> set (snd (iconDatum a))" using one [OF that(3)] by simp
    then show ?thesis using that(1,2) by (auto simp: agentErrors_def)
  qed
  have four: "length (layer_data (iconLayer as)) = length as"
    by (simp add: iconLayer_def)
  have five: "w_console (snd (Deck rt w)) =
       w_console w @ agentErrors (curZoom (w_ui w)) (agents (w_store w))"
    by (simp add: Deck_def Let_def)
  have six: "js_gt z (Num 10) \<Longrightarrow> agentLayers z as = [iconLayer as, textLayer as]"
    by (simp add: agentLayers_def)
  show ?thesis using one two three four five six by blast
qed

text \<open>An agent whose profile is \<open>null\<close>, rendered at zoom 11 next to a well-formed one.\<close>

theorem profile_failure_is_caught_witness:
  "tryAvatar (agent_profile nameless) = Inl TypeError
   \<and> iconDatum nameless = (IconDatum (Num 2) (Num 117, Num 41) ''/icon/agent.png'', [TypeError])
   \<and> nameless \<in> set [alice, nameless] \<and> js_gt (Num 11) (Num 10)
   \<and> IconDatum (Num 2) (Num 117, Num 41) ''/icon/agent.png''
        \<in> set (layer_data (iconLayer [alice, nameless]))
   \<and> TypeError \<in> set (agentErrors (Num 11) [alice, nameless])
   \<and> w_console (snd (Deck es_runtime world0)) = [TypeError]"
  using profile_failure_is_caught [of nameless TypeError "[alice, nameless]" "Num 11"
      es_runtime world0]
  by (simp add: nameless_def alice_def js_gt_def world0_def store0_def agentErrors_def
      iconDatum_def avatarOfProfile_def)

subsection \<open>Click\<close>

text \<open>
  C7. A left-button click on an object of a layer with id \<open>icon\<close>, \<open>point\<close> or
  \<open>text\<close> calls \<open>setClickedAgentID\<close> exactly once, with the id of the clicked object,
  and the handler completes; a left-button click with no picked layer calls it not at all;
  a click without the left button calls it not at all, the console line being all that
  happens. The id of an object of the three agent layers is the id of its agent.
\<close>

theorem click_semantics:
  "(leftButton ev \<and> pi_layer info = Some l
      \<and> (layer_id l = ''icon'' \<or> layer_id l = ''point'' \<or> layer_id l = ''text'')
      \<and> pi_object info = Some obj \<longrightarrow>
      onClick info ev = ([ConsoleLog info ev, SetClickedAgentID (datum_id obj)], None)
      \<and> setClickedAgentID_calls (fst (onClick info ev)) = [datum_id obj])
   \<and> (leftButton ev \<and> pi_layer info = None \<longrightarrow>
      onClick info ev = ([ConsoleLog info ev], None)
      \<and> setClickedAgentID_calls (fst (onClick info ev)) = [])
   \<and> (\<not> leftButton ev \<longrightarrow>
      onClick info ev = ([ConsoleLog info ev], None)
      \<and> setClickedAgentID_calls (fst (onClick info ev)) = [])
   \<and> datum_id (fst (iconDatum a)) = Some (VNum (agent_id a))
   \<and> datum_id (pointDatum a) = Some (VNum (agent_id a))
   \<and> (agent_name a \<noteq> [] \<longrightarrow>
        map_option datum_id (textDatum a) = Some (Some (VNum (agent_id a))))"
proof -
  have ids: "datum_id (fst (iconDatum a)) = Some (VNum (agent_id a))"
    "datum_id (pointDatum a) = Some (VNum (agent_id a))"
    "agent_name a \<noteq> [] \<Longrightarrow>
       map_option datum_id (textDatum a) = Some (Some (VNum (agent_id a)))"
    by (simp_all add: iconDatum_def pointDatum_def textDatum_def split: sum.split)
  have left: "onClick info ev = ([ConsoleLog info ev, SetClickedAgentID (datum_id obj)], None)"
    if "leftButton ev" "pi_layer info = Some l"
      "layer_id l = ''icon'' \<or> layer_id l = ''point'' \<or> layer_id l = ''text''"
      "pi_object info = Some obj"
    using that by (auto simp: onClick_def)
  have nolayer: "onClick info ev = ([ConsoleLog info ev], None)"
    if "leftButton ev" "pi_layer info = None"
    using that by (simp add: onClick_def)
  have right: "onClick info ev = ([ConsoleLog info ev], None)" if "\<not> leftButton ev"
    using that by (simp add: onClick_def)
  show ?thesis
    using ids left nolayer right by (auto simp del: One_nat_def)
qed

text \<open>
  A left click on the point of the first example agent, a left click on the empty map, and
  a right click on the same point.
\<close>

theorem click_semantics_witness:
  "onClick \<lparr>pi_layer = Some (pointLayer [alice]), pi_object = Some (pointDatum alice),
            pi_coordinate = Some (Num 116, Num 40)\<rparr> \<lparr>leftButton = True\<rparr> =
     ([ConsoleLog \<lparr>pi_layer = Some (pointLayer [alice]), pi_object = Some (pointDatum alice),
                   pi_coordinate = Some (Num 116, Num 40)\<rparr> \<lparr>leftButton = True\<rparr>,
       SetClickedAgentID (Some (VNum (Num 1)))], None)
   \<and> setClickedAgentID_calls
       (fst (onClick \<lparr>pi_layer = None, pi_object = None,
                      pi_coordinate = Some (Num 116, Num 40)\<rparr> \<lparr>leftButton = True\<rparr>)) = []
   \<and> setClickedAgentID_calls
       (fst (onClick \<lparr>pi_layer = Some (pointLayer [alice]), pi_object = Some (pointDatum alice),
                      pi_coordinate = Some (Num 116, Num 40)\<rparr> \<lparr>leftButton = False\<rparr>)) = []"
proof -
  have h: "layer_id (pointLayer [alice]) = ''point''"
    by (simp add: pointLayer_def)
  have i: "datum_id (pointDatum alice) = Some (VNum (Num 1))"
    by (simp add: pointDatum_def alice_def)
  have c1: "onClick \<lparr>pi_layer = Some (pointLayer [alice]), pi_object = Some (pointDatum alice),
            pi_coordinate = Some (Num 116, Num 40)\<rparr> \<lparr>leftButton = True\<rparr> =
     ([ConsoleLog \<lparr>pi_layer = Some (pointLayer [alice]), pi_object = Some (pointDatum alice),
                   pi_coordinate = Some (Num 116, Num 40)\<rparr> \<lparr>leftButton = True\<rparr>,
       SetClickedAgentID (datum_id (pointDatum alice))], None)"
    using click_semantics [of "\<lparr>leftButton = True\<rparr>"
        "\<lparr>pi_layer = Some (pointLayer [alice]), pi_object = Some (pointDatum alice),
          pi_coordinate = Some (Num 116, Num 40)\<rparr>" "pointLayer [alice]" "pointDatum alice" alice] h
    by simp
  have c2: "setClickedAgentID_calls
       (fst (onClick \<lparr>pi_layer = None, pi_object = None,
                      pi_coordinate = Some (Num 116, Num 40)\<rparr> \<lparr>leftButton = True\<rparr>)) = []"
    using click_semantics [of "\<lparr>leftButton = True\<rparr>"
        "\<lparr>pi_layer = None, pi_object = None, pi_coordinate = Some (Num 116, Num 40)\<rparr>"
        "pointLayer [alice]" "pointDatum alice" alice]
    by simp
  have c3: "setClickedAgentID_calls
       (fst (onClick \<lparr>pi_layer = Some (pointLayer [alice]), pi_object = Some (pointDatum alice),
                      pi_coordinate = Some (Num 116, Num 40)\<rparr> \<lparr>leftButton = False\<rparr>)) = []"
    using click_semantics [of "\<lparr>leftButton = False\<rparr>"
        "\<lparr>pi_layer = Some (pointLayer [alice]), pi_object = Some (pointDatum alice),
          pi_coordinate = Some (Num 116, Num 40)\<rparr>" "pointLayer [alice]" "pointDatum alice" alice]
    by simp
  show ?thesis using c1 c2 c3 i by simp
qed

subsection \<open>Tooltip\<close>

text \<open>
  C8, as amended. The tooltip is null when there is no hovered object or no layer. On the
  layers \<open>bridge-status\<close> and \<open>bridge-status-label\<close> a bridge overlay gives an HTML
  block made of the name (the bridge id when there is no name), the status line (the
  status, or \<open>work_order\<close>, followed by the work-order status when there is one), the
  priority line, the action, and the overdue days or else the due date. On the layer
  \<open>aoi\<close> the tooltip is the block of name, id and land-use label when the object has a
  name, an id and a land use the table knows, and null as soon as one of the three is
  missing. On every other layer the tooltip is null.
\<close>

theorem tooltip_dispatch:
  "getTooltip showNum None lo = None
   \<and> getTooltip showNum oo None = None
   \<and> (layer_id l = ''bridge-status'' \<or> layer_id l = ''bridge-status-label'' \<longrightarrow>
        getTooltip showNum (Some (BridgeDatum b)) (Some l) =
          Some \<lparr>html = ''<b>'' @ (case name b of Some n \<Rightarrow> n | None \<Rightarrow> bridge_id b) @
                        ''</b><br/>'' @
                        (case status b of Some s \<Rightarrow> s | None \<Rightarrow> ''work_order'') @
                        (case work_order_status b of
                           None \<Rightarrow> [] | Some w \<Rightarrow> if w = [] then [] else '' - '' @ w) @
                        ''<br/>'' @
                        (case priority b of
                           None \<Rightarrow> [] | Some p \<Rightarrow> if p = [] then [] else ''Priority: '' @ p) @
                        ''<br/>'' @
                        (case action b of None \<Rightarrow> [] | Some a \<Rightarrow> a) @
                        ''<br/>'' @
                        (case days_overdue b of
                           Some n \<Rightarrow> ''Overdue: '' @ showNum n @ '' days''
                         | None \<Rightarrow>
                             (case due_date b of
                                None \<Rightarrow> [] | Some d \<Rightarrow> if d = [] then [] else ''Due: '' @ d)),
                 backgroundColor = ''rgba(0, 0, 0, 0.75)'', text_color = ''white'',
                 padding = Some ''6px 8px''\<rparr>)
   \<and> (layer_id l = ''aoi'' \<and> map_of LAND_USE_NAME k = Some u \<longrightarrow>
        getTooltip showNum
          (Some (AoiFeature (Some i) (Some \<lparr>aoi_name = Some n, land_use = Some k\<rparr>)))
          (Some l) =
          Some \<lparr>html = ''<b>'' @ n @ ''</b><br/>ID = '' @ template_val showNum i @
                        ''<br/>'' @ u,
                 backgroundColor = ''rgba(0, 0, 0, 0.8)'', text_color = ''white'',
                 padding = None\<rparr>)
   \<and> (layer_id l = ''aoi''
        \<and> (Option.bind (datum_properties obj) aoi_name = None \<or> datum_id obj = None
           \<or> Option.bind (Option.bind (datum_properties obj) land_use)
                (map_of LAND_USE_NAME) = None) \<longrightarrow>
        getTooltip showNum (Some obj) (Some l) = None)
   \<and> (layer_id l \<noteq> ''bridge-status'' \<and> layer_id l \<noteq> ''bridge-status-label''
        \<and> layer_id l \<noteq> ''aoi'' \<longrightarrow>
        getTooltip showNum (Some obj) (Some l) = None)"
proof -
  have none: "getTooltip showNum None lo = None" "getTooltip showNum oo None = None"
    by (simp_all add: getTooltip_def split: option.split)
  have bridge: "getTooltip showNum (Some (BridgeDatum b)) (Some l) =
          Some \<lparr>html = ''<b>'' @ (case name b of Some n \<Rightarrow> n | None \<Rightarrow> bridge_id b) @
                        ''</b><br/>'' @
                        (case status b of Some s \<Rightarrow> s | None \<Rightarrow> ''work_order'') @
                        (case work_order_status b of
                           None \<Rightarrow> [] | Some w \<Rightarrow> if w = [] then [] else '' - '' @ w) @
                        ''<br/>'' @
                        (case priority b of
                           None \<Rightarrow> [] | Some p \<Rightarrow> if p = [] then [] else ''Priority: '' @ p) @
                        ''<br/>'' @
                        (case action b of None \<Rightarrow> [] | Some a \<Rightarrow> a) @
                        ''<br/>'' @
                        (case days_overdue b of
                           Some n \<Rightarrow> ''Overdue: '' @ showNum n @ '' days''
                         | None \<Rightarrow>
                             (case due_date b of
                                None \<Rightarrow> [] | Some d \<Rightarrow> if d = [] then [] else ''Due: '' @ d)),
                 backgroundColor = ''rgba(0, 0, 0, 0.75)'', text_color = ''white'',
                 padding = Some ''6px 8px''\<rparr>"
    if "layer_id l = ''bridge-status'' \<or> layer_id l = ''bridge-status-label''"
  proof -
    have hd: "tooltip_header (as_any (BridgeDatum b)) =
        (case name b of Some n \<Rightarrow> n | None \<Rightarrow> bridge_id b)"
      by (simp add: tooltip_header_def split: option.split)
    have sl: "tooltip_statusLine (as_any (BridgeDatum b)) =
        (case status b of Some s \<Rightarrow> s | None \<Rightarrow> ''work_order'') @
        (case work_order_status b of
           None \<Rightarrow> [] | Some w \<Rightarrow> if w = [] then [] else '' - '' @ w)"
      by (simp add: tooltip_statusLine_def Let_def split: option.split)
    have rk: "tooltip_risk (as_any (BridgeDatum b)) =
        (case priority b of
           None \<Rightarrow> [] | Some p \<Rightarrow> if p = [] then [] else ''Priority: '' @ p)"
      by (simp add: tooltip_risk_def split: option.split)
    have du: "tooltip_due showNum (as_any (BridgeDatum b)) =
        (case days_overdue b of
           Some n \<Rightarrow> ''Overdue: '' @ showNum n @ '' days''
         | None \<Rightarrow>
             (case due_date b of
                None \<Rightarrow> [] | Some d \<Rightarrow> if d = [] then [] else ''Due: '' @ d))"
      by (simp add: tooltip_due_def split: option.split)
    have ac: "i_action (as_any (BridgeDatum b)) = action b"
      by simp
    have "getTooltip showNum (Some (BridgeDatum b)) (Some l) =
        Some (bridgeTooltip showNum (BridgeDatum b))"
      using that by (auto simp: getTooltip_def)
    then show ?thesis
      by (simp only: bridgeTooltip_def Let_def hd sl rk du ac append_assoc)
  qed
  have aoi_some: "getTooltip showNum
          (Some (AoiFeature (Some i) (Some \<lparr>aoi_name = Some n, land_use = Some k\<rparr>)))
          (Some l) =
          Some \<lparr>html = ''<b>'' @ n @ ''</b><br/>ID = '' @ template_val showNum i @
                        ''<br/>'' @ u,
                 backgroundColor = ''rgba(0, 0, 0, 0.8)'', text_color = ''white'',
                 padding = None\<rparr>"
    if "layer_id l = ''aoi''" "map_of LAND_USE_NAME k = Some u"
    using that by (simp add: getTooltip_def aoiTooltip_def)
  have aoi_none: "getTooltip showNum (Some obj) (Some l) = None"
    if "layer_id l = ''aoi''"
      "Option.bind (datum_properties obj) aoi_name = None \<or> datum_id obj = None
       \<or> Option.bind (Option.bind (datum_properties obj) land_use)
            (map_of LAND_USE_NAME) = None"
    using that by (auto simp: getTooltip_def aoiTooltip_def split: option.split)
  have other: "getTooltip showNum (Some obj) (Some l) = None"
    if "layer_id l \<noteq> ''bridge-status''" "layer_id l \<noteq> ''bridge-status-label''"
      "layer_id l \<noteq> ''aoi''"
    using that by (simp add: getTooltip_def)
  show ?thesis
    using none bridge aoi_some aoi_none other by blast
qed

text \<open>
  The two bridge overlays of the examples on the two bridge layers, a feature with a known
  land use on the layer \<open>aoi\<close>, and an icon on the icon layer.
\<close>

theorem tooltip_dispatch_witness:
  "map_option html (getTooltip showNum_sample (Some (BridgeDatum bridge1))
       (Some (bridgeLayer [bridge1]))) =
     Some ''<b>B-1</b><br/>work_order - IN_PROGRESS<br/>Priority: Critical<br/>inspect<br/>Due: 2025-01-01''
   \<and> map_option html (getTooltip showNum_sample (Some (BridgeDatum bridge2))
       (Some (bridgeLabelLayer [bridge2]))) =
     Some ''<b>Old Bridge</b><br/>open<br/>Priority: low<br/><br/>Overdue: 3 days''
   \<and> map_option html (getTooltip showNum_sample
       (Some (AoiFeature (Some (VNum (Num 3)))
          (Some \<lparr>aoi_name = Some ''Park'', land_use = Some ''LAND_USE_TYPE_UNSPECIFIED''\<rparr>)))
       (Some aoi_layer)) =
     Some (''<b>Park</b><br/>ID = 3<br/>'' @
           [CHR 0xE6, CHR 0x9C, CHR 0xAA, CHR 0xE6, CHR 0x8C, CHR 0x87, CHR 0xE5, CHR 0xAE,
            CHR 0x9A])
   \<and> getTooltip showNum_sample (Some (fst (iconDatum alice))) (Some (iconLayer [alice])) = None"
proof -
  have c1: "map_option html (getTooltip showNum_sample (Some (BridgeDatum bridge1))
       (Some (bridgeLayer [bridge1]))) =
     Some ''<b>B-1</b><br/>work_order - IN_PROGRESS<br/>Priority: Critical<br/>inspect<br/>Due: 2025-01-01''"
    using tooltip_dispatch [where showNum = showNum_sample and l = "bridgeLayer [bridge1]"
        and b = bridge1 and lo = None and oo = None and k = "[]" and u = "[]"
        and i = "VNum (Num 3)" and n = "[]" and obj = "BridgeDatum bridge1"]
    by (simp add: bridgeLayer_def bridge1_def)
  have c2: "map_option html (getTooltip showNum_sample (Some (BridgeDatum bridge2))
       (Some (bridgeLabelLayer [bridge2]))) =
     Some ''<b>Old Bridge</b><br/>open<br/>Priority: low<br/><br/>Overdue: 3 days''"
    using tooltip_dispatch [where showNum = showNum_sample and l = "bridgeLabelLayer [bridge2]"
        and b = bridge2 and lo = None and oo = None and k = "[]" and u = "[]"
        and i = "VNum (Num 3)" and n = "[]" and obj = "BridgeDatum bridge2"]
    by (simp add: bridgeLabelLayer_def bridge2_def showNum_sample_def)
  have c3: "map_option html (getTooltip showNum_sample
       (Some (AoiFeature (Some (VNum (Num 3)))
          (Some \<lparr>aoi_name = Some ''Park'', land_use = Some ''LAND_USE_TYPE_UNSPECIFIED''\<rparr>)))
       (Some aoi_layer)) =
     Some (''<b>Park</b><br/>ID = 3<br/>'' @
           [CHR 0xE6, CHR 0x9C, CHR 0xAA, CHR 0xE6, CHR 0x8C, CHR 0x87, CHR 0xE5, CHR 0xAE,
            CHR 0x9A])"
    using tooltip_dispatch [where showNum = showNum_sample and l = aoi_layer
        and k = "''LAND_USE_TYPE_UNSPECIFIED''" and i = "VNum (Num 3)" and n = "''Park''"
        and u = "[CHR 0xE6, CHR 0x9C, CHR 0xAA, CHR 0xE6, CHR 0x8C, CHR 0x87, CHR 0xE5,
                  CHR 0xAE, CHR 0x9A]"
        and b = bridge1 and lo = None and oo = None and obj = "BridgeDatum bridge1"]
    by (simp add: aoi_layer_def LAND_USE_NAME_def showNum_sample_def)
  have c4: "getTooltip showNum_sample (Some (fst (iconDatum alice))) (Some (iconLayer [alice]))
      = None"
    using tooltip_dispatch [where showNum = showNum_sample and l = "iconLayer [alice]"
        and obj = "fst (iconDatum alice)" and b = bridge1 and lo = None and oo = None
        and k = "[]" and u = "[]" and i = "VNum (Num 3)" and n = "[]"]
    by (simp add: iconLayer_def)
  show ?thesis using c1 c2 c3 c4 by blast
qed

text \<open>
  The claim as written fails on the layer \<open>aoi\<close>: a feature with a name and an id whose
  land use is not in the table gets no tooltip, and neither does a feature without a name.
\<close>

theorem tooltip_dispatch_counterexample:
  "layer_id aoi_layer = ''aoi''
   \<and> getTooltip showNum_sample
       (Some (AoiFeature (Some (VStr ''a7''))
          (Some \<lparr>aoi_name = Some ''Park'', land_use = Some ''LAND_USE_TYPE_WATER''\<rparr>)))
       (Some aoi_layer) = None
   \<and> getTooltip showNum_sample
       (Some (AoiFeature (Some (VStr ''a8''))
          (Some \<lparr>aoi_name = None, land_use = Some ''LAND_USE_TYPE_PUBLIC''\<rparr>)))
       (Some aoi_layer) = None"
  by (simp add: getTooltip_def aoiTooltip_def aoi_layer_def LAND_USE_NAME_def)

subsection \<open>Bridge marker radius and label\<close>

text \<open>
  C10. The radius of a bridge marker is 180 when the lower-case form of the priority is
  \<open>critical\<close> and 140 otherwise; it does not depend on the work-order status, so a
  critical bridge whose work order is in progress has the in-progress colour and the
  radius 180. The label is the name, or the bridge id when the name is undefined.
\<close>

theorem bridge_marker_radius_and_label:
  "bridge_getRadius d =
     (if \<exists>p. priority d = Some p \<and> toLowerCase p = ''critical'' then 180 else 140)
   \<and> bridge_getRadius (d\<lparr>work_order_status := w\<rparr>) = bridge_getRadius d
   \<and> (priority d = Some p \<and> toLowerCase p = ''critical'' \<and> work_order_status d = Some s
        \<and> str_includes (toLowerCase s) ''progress'' \<longrightarrow>
        bridge_getFillColor d = BRIDGE_COLORS_inProgress \<and> bridge_getRadius d = 180)
   \<and> (name d = Some n \<longrightarrow> bridge_getText d = n)
   \<and> (name d = None \<longrightarrow> bridge_getText d = bridge_id d)"
proof -
  have r: "bridge_getRadius d =
     (if \<exists>p. priority d = Some p \<and> toLowerCase p = ''critical'' then 180 else 140)"
    by (cases "priority d") (simp_all add: bridge_getRadius_def)
  have i: "bridge_getRadius (d\<lparr>work_order_status := w\<rparr>) = bridge_getRadius d"
    by (simp add: bridge_getRadius_def)
  have c: "bridge_getFillColor d = BRIDGE_COLORS_inProgress \<and> bridge_getRadius d = 180"
    if "priority d = Some p" "toLowerCase p = ''critical''" "work_order_status d = Some s"
      "str_includes (toLowerCase s) ''progress''"
    using that by (simp add: bridge_getFillColor_def bridgeStatusColor_cases r)
  have x: "name d = Some n \<Longrightarrow> bridge_getText d = n"
    "name d = None \<Longrightarrow> bridge_getText d = bridge_id d"
    by (simp_all add: bridge_getText_def)
  show ?thesis using r i c x by blast
qed

text \<open>
  The first example bridge is critical and in progress and has no name; the second has a
  name and a low priority.
\<close>

theorem bridge_marker_radius_and_label_witness:
  "bridge_getRadius bridge1 = 180
   \<and> bridge_getFillColor bridge1 = (255, 165, 0, 220)
   \<and> bridge_getText bridge1 = ''B-1''
   \<and> bridge_getRadius bridge2 = 140
   \<and> bridge_getText bridge2 = ''Old Bridge''"
proof -
  have h: "priority bridge1 = Some ''Critical''" "toLowerCase ''Critical'' = ''critical''"
    "work_order_status bridge1 = Some ''IN_PROGRESS''"
    "str_includes (toLowerCase ''IN_PROGRESS'') ''progress''"
    "name bridge1 = None" "name bridge2 = Some ''Old Bridge''"
    "priority bridge2 = Some ''low''" "toLowerCase ''low'' \<noteq> ''critical''"
    "bridge_id bridge1 = ''B-1''"
    by (simp_all add: bridge1_def bridge2_def toLowerCase_def lower_char_def)
  have c1: "bridge_getFillColor bridge1 = BRIDGE_COLORS_inProgress"
    "bridge_getRadius bridge1 = 180" "bridge_getText bridge1 = bridge_id bridge1"
    using bridge_marker_radius_and_label [of bridge1 None "''Critical''" "''IN_PROGRESS''"
        "''x''"] h(1-5)
    by blast+
  have c2: "bridge_getRadius bridge2 = 140" "bridge_getText bridge2 = ''Old Bridge''"
    using bridge_marker_radius_and_label [of bridge2 None "''Critical''" "''IN_PROGRESS''"
        "''Old Bridge''"] h(6-8)
    by simp_all
  show ?thesis using c1 c2 h(9) by (simp add: BRIDGE_COLORS_inProgress_def)
qed

end
